theory Spec2Isabelle
  imports Complex_Main
begin

section \<open>The retirement planner \<open>davidapp.py\<close>\<close>

text \<open>
  The program is one Python script: three functions (\<open>sip_simulation\<close>,
  \<open>tax_benefits\<close>, \<open>post_retirement_income_models\<close>) and top-level statements
  that read widget values and compute the retirement summary, the yearly growth lists
  and the comparison table.

  Numbers: Python's \<open>int\<close> values that count (ages, years, months, loop indices) are
  \<open>int\<close>; money amounts and rates are \<open>real\<close>. A Python \<open>float\<close> is read as the real
  number it stands for, so rounding of the binary floating-point format and overflow of
  its range are outside the model. What the interpreter raises is a value of
  \<open>py_error\<close>, and a computation that can raise returns \<open>py_error + 'a\<close>.
\<close>

datatype py_error = ZeroDivisionError | ValueError

subsection \<open>Python's operators and builtins\<close>

text \<open>\<open>a / b\<close> on numbers: true division, which raises when the divisor is zero.\<close>

definition float_div :: "real \<Rightarrow> real \<Rightarrow> py_error + real" where
  "float_div a b = (if b = 0 then Inl ZeroDivisionError else Inr (a / b))"

text \<open>
  \<open>x ** k\<close> for a float \<open>x\<close> and an int \<open>k\<close>: repeated multiplication for \<open>k \<ge> 0\<close>
  (with \<open>x ** 0 = 1.0\<close>), the reciprocal for \<open>k < 0\<close>, where a zero base raises.
\<close>

definition float_pow :: "real \<Rightarrow> int \<Rightarrow> py_error + real" where
  "float_pow x k =
     (if 0 \<le> k then Inr (x ^ nat k)
      else if x = 0 then Inl ZeroDivisionError
      else Inr (1 / x ^ nat (- k)))"

text \<open>\<open>range(a, b)\<close>: the integers from \<open>a\<close> up to \<open>b - 1\<close>, empty when \<open>b \<le> a\<close>.\<close>

definition py_range :: "int \<Rightarrow> int \<Rightarrow> int list" where
  "py_range a b = [a..b - 1]"

text \<open>
  A list comprehension \<open>[f(i) for i in xs]\<close>: the elements are computed from left to
  right and the first one that raises ends the comprehension.
\<close>

fun list_comp :: "('a \<Rightarrow> py_error + 'b) \<Rightarrow> 'a list \<Rightarrow> py_error + 'b list" where
  "list_comp f [] = Inr []"
| "list_comp f (x # xs) =
     (case f x of
        Inl e \<Rightarrow> Inl e
      | Inr y \<Rightarrow> (case list_comp f xs of Inl e \<Rightarrow> Inl e | Inr ys \<Rightarrow> Inr (y # ys)))"

subsection \<open>\<open>sip_simulation\<close>\<close>

text \<open>
  The body of the \<open>for\<close> loop, run over the remaining indices:
  \<^verbatim>\<open>future_value += monthly_investment * (1 + monthly_rate) ** (months - i + 1)\<close>
\<close>

fun sip_loop :: "real \<Rightarrow> real \<Rightarrow> int \<Rightarrow> int list \<Rightarrow> real \<Rightarrow> py_error + real" where
  "sip_loop monthly_investment monthly_rate months [] future_value = Inr future_value"
| "sip_loop monthly_investment monthly_rate months (i # rest) future_value =
     (case float_pow (1 + monthly_rate) (months - i + 1) of
        Inl e \<Rightarrow> Inl e
      | Inr p \<Rightarrow>
          sip_loop monthly_investment monthly_rate months rest
            (future_value + monthly_investment * p))"

definition sip_simulation :: "real \<Rightarrow> real \<Rightarrow> int \<Rightarrow> py_error + (real \<times> real)" where
  "sip_simulation monthly_investment annual_return_rate years =
     (let total_invested = monthly_investment * 12 * of_int years;
          monthly_rate = annual_return_rate / 12 / 100;
          months = years * 12
      in case sip_loop monthly_investment monthly_rate months
                (py_range 1 (months + 1)) 0 of
           Inl e \<Rightarrow> Inl e
         | Inr future_value \<Rightarrow> Inr (total_invested, future_value))"

subsection \<open>\<open>tax_benefits\<close>\<close>

definition tax_benefits :: "real \<Rightarrow> real \<times> real" where
  "tax_benefits investment_amount =
     (let sec_80c_limit = 150000;
          eligible = min investment_amount sec_80c_limit;
          tax_saved = eligible * 0.3
      in (eligible, tax_saved))"

subsection \<open>\<open>post_retirement_income_models\<close>\<close>

definition post_retirement_income_models ::
    "real \<Rightarrow> real \<Rightarrow> real \<Rightarrow> py_error + (real \<times> real)" where
  "post_retirement_income_models total_corpus annuity_rate swp_amount =
     (let annual_annuity = total_corpus * annuity_rate / 100
      in case float_div total_corpus (swp_amount * 12) of
           Inl e \<Rightarrow> Inl e
         | Inr years_swp \<Rightarrow> Inr (annual_annuity, years_swp))"

subsection \<open>The retirement calculation of the script\<close>

text \<open>
  The top-level statements, as functions of the widget values they read.
  \<^verbatim>\<open>months = (retirement_age - age) * 12\<close>
  \<^verbatim>\<open>total_investment = monthly_investment * months\<close>
\<close>

definition months :: "int \<Rightarrow> int \<Rightarrow> int" where
  "months age retirement_age = (retirement_age - age) * 12"

definition total_investment :: "real \<Rightarrow> int \<Rightarrow> real" where
  "total_investment monthly_investment mths = monthly_investment * of_int mths"

text \<open>
  \<^verbatim>\<open>monthly_investment * (((1 + estimated_return_equity/100/12) ** months - 1)
      / (estimated_return_equity/100/12))\<close>
  The power is computed first, then the quotient, then the product.
\<close>

definition future_value_equity :: "real \<Rightarrow> real \<Rightarrow> int \<Rightarrow> py_error + real" where
  "future_value_equity monthly_investment estimated_return_equity mths =
     (case float_pow (1 + estimated_return_equity / 100 / 12) mths of
        Inl e \<Rightarrow> Inl e
      | Inr p \<Rightarrow>
          (case float_div (p - 1) (estimated_return_equity / 100 / 12) of
             Inl e \<Rightarrow> Inl e
           | Inr q \<Rightarrow> Inr (monthly_investment * q)))"

definition future_value_traditional :: "real \<Rightarrow> real \<Rightarrow> int \<Rightarrow> py_error + real" where
  "future_value_traditional monthly_investment estimated_return_traditional mths =
     (case float_pow (1 + estimated_return_traditional / 100 / 12) mths of
        Inl e \<Rightarrow> Inl e
      | Inr p \<Rightarrow>
          (case float_div (p - 1) (estimated_return_traditional / 100 / 12) of
             Inl e \<Rightarrow> Inl e
           | Inr q \<Rightarrow> Inr (monthly_investment * q)))"

subsection \<open>The year-by-year growth lists\<close>

text \<open>
  \<^verbatim>\<open>years = list(range(age, retirement_age + 1))\<close>
  \<^verbatim>\<open>equity_growth = [monthly_investment * (((1 + estimated_return_equity/100/12)
      ** (i*12) - 1) / (estimated_return_equity/100/12)) for i in range(len(years))]\<close>
  and the same comprehension with the traditional rate.
\<close>

definition years :: "int \<Rightarrow> int \<Rightarrow> int list" where
  "years age retirement_age = py_range age (retirement_age + 1)"

definition equity_growth :: "real \<Rightarrow> real \<Rightarrow> int list \<Rightarrow> py_error + real list" where
  "equity_growth monthly_investment estimated_return_equity yrs =
     list_comp
       (\<lambda>i. case float_pow (1 + estimated_return_equity / 100 / 12) (i * 12) of
               Inl e \<Rightarrow> Inl e
             | Inr p \<Rightarrow>
                 (case float_div (p - 1) (estimated_return_equity / 100 / 12) of
                    Inl e \<Rightarrow> Inl e
                  | Inr q \<Rightarrow> Inr (monthly_investment * q)))
       (py_range 0 (int (length yrs)))"

definition traditional_growth :: "real \<Rightarrow> real \<Rightarrow> int list \<Rightarrow> py_error + real list" where
  "traditional_growth monthly_investment estimated_return_traditional yrs =
     list_comp
       (\<lambda>i. case float_pow (1 + estimated_return_traditional / 100 / 12) (i * 12) of
               Inl e \<Rightarrow> Inl e
             | Inr p \<Rightarrow>
                 (case float_div (p - 1) (estimated_return_traditional / 100 / 12) of
                    Inl e \<Rightarrow> Inl e
                  | Inr q \<Rightarrow> Inr (monthly_investment * q)))
       (py_range 0 (int (length yrs)))"

subsection \<open>The comparison table\<close>

text \<open>
  \<open>data\<close> is a dict from column names to lists of cells, in insertion order;
  \<open>pd.DataFrame(data)\<close> makes one row per list position and raises \<open>ValueError\<close>
  when the lists differ in length.
\<close>

datatype cell = Num real | Str string

record data_frame =
  columns :: "string list"
  rows :: "cell list list"

definition DataFrame :: "(string \<times> cell list) list \<Rightarrow> py_error + data_frame" where
  "DataFrame d =
     (case d of
        [] \<Rightarrow> Inr \<lparr>columns = [], rows = []\<rparr>
      | c # cs \<Rightarrow>
          if list_all (\<lambda>col. length (snd col) = length (snd c)) cs
          then Inr \<lparr>columns = map fst d,
                    rows = map (\<lambda>k. map (\<lambda>col. snd col ! k) d) [0..<length (snd c)]\<rparr>
          else Inl ValueError)"

definition data :: "(string \<times> cell list) list" where
  "data =
     [(''Option'',
         [Str ''Equity Mutual Fund'', Str ''Public Provident Fund (PPF)'',
          Str ''Employees Provident Fund (EPF)'', Str ''National Pension Scheme (NPS)'']),
      (''Expected Returns (p.a.)'', [Num 12, Num 7.1, Num 8.1, Num 9]),
      (''Risk Level'', [Str ''High'', Str ''Low'', Str ''Low'', Str ''Moderate'']),
      (''Liquidity'',
         [Str ''High (after 1 year)'', Str ''Low'', Str ''Low'', Str ''Moderate''])]"

definition df_comparison :: "py_error + data_frame" where
  "df_comparison = DataFrame data"

text \<open>
  Reading a frame as pandas' \<open>df[name]\<close> does: the cells of the column of that name,
  from the first row down.
\<close>

definition column :: "data_frame \<Rightarrow> string \<Rightarrow> cell list option" where
  "column df name =
     (case find (\<lambda>k. columns df ! k = name) [0..<length (columns df)] of
        None \<Rightarrow> None
      | Some k \<Rightarrow> Some (map (\<lambda>row. row ! k) (rows df)))"

subsection \<open>Agreement within a relative tolerance\<close>

text \<open>
  The relation the specification's testable properties use to compare two computed
  amounts: \<open>a\<close> and \<open>b\<close> agree within the relative tolerance \<open>tol\<close> when their distance
  is at most \<open>tol\<close> times the larger magnitude (the reading of \<open>math.isclose\<close>).
\<close>

definition within_rel_tol :: "real \<Rightarrow> real \<Rightarrow> real \<Rightarrow> bool" where
  "within_rel_tol a b tol \<longleftrightarrow> \<bar>a - b\<bar> \<le> tol * max \<bar>a\<bar> \<bar>b\<bar>"

section \<open>What the loop of \<open>sip_simulation\<close> computes\<close>

text \<open>
  Inside the loop the exponent \<open>months - i + 1\<close> is never negative, so the power never
  raises and the loop adds one term per index.
\<close>

lemma sip_loop_sum:
  "\<forall>i\<in>set js. i \<le> mths + 1 \<Longrightarrow>
   sip_loop m r mths js fv = Inr (fv + (\<Sum>i\<leftarrow>js. m * (1 + r) ^ nat (mths - i + 1)))"
  by (induction js arbitrary: fv) (simp_all add: float_pow_def)

text \<open>Counting the exponent instead of the index: the terms are the powers 1 to \<open>n\<close>.\<close>

lemma sum_reindex:
  fixes x :: real
  shows "0 \<le> n \<Longrightarrow>
    (\<Sum>i\<in>{1..n}. m * x ^ nat (n - i + 1)) = m * (\<Sum>k\<in>{1..nat n}. x ^ k)"
  unfolding sum_distrib_left
  by (rule sum.reindex_bij_witness
        [where i = "\<lambda>k. n - int k + 1" and j = "\<lambda>i. nat (n - i + 1)"]) auto

lemma sip_simulation_sum:
  "0 \<le> yrs \<Longrightarrow> sip_simulation m rate yrs =
     Inr (m * 12 * of_int yrs, m * (\<Sum>k\<in>{1..nat (yrs * 12)}. (1 + rate / 12 / 100) ^ k))"
  unfolding sip_simulation_def Let_def py_range_def
  by (simp add: sip_loop_sum sum_list_distinct_conv_sum_set sum_reindex)

lemma gp_from_one:
  fixes x :: real
  assumes "x \<noteq> 1"
  shows "(\<Sum>k\<in>{1..n}. x ^ k) = x * ((x ^ n - 1) / (x - 1))"
  using assms by (induction n) (simp_all add: field_simps)

lemma sip_simulation_closed:
  assumes "0 \<le> yrs" "rate \<noteq> 0"
  shows "sip_simulation m rate yrs =
     Inr (m * 12 * of_int yrs,
          m * (1 + rate / 12 / 100) *
            (((1 + rate / 12 / 100) ^ nat (yrs * 12) - 1) / (rate / 12 / 100)))"
proof -
  have "1 + rate / 12 / 100 \<noteq> 1" using assms(2) by simp
  from gp_from_one[OF this] show ?thesis
    by (simp add: sip_simulation_sum[OF assms(1)])
qed

section \<open>The closed-form expressions of the script\<close>

lemma future_value_equity_closed:
  assumes "0 \<le> mths" "rate \<noteq> 0"
  shows "future_value_equity m rate mths =
     Inr (m * (((1 + rate / 100 / 12) ^ nat mths - 1) / (rate / 100 / 12)))"
  using assms by (simp add: future_value_equity_def float_pow_def float_div_def)

lemma future_value_traditional_closed:
  assumes "0 \<le> mths" "rate \<noteq> 0"
  shows "future_value_traditional m rate mths =
     Inr (m * (((1 + rate / 100 / 12) ^ nat mths - 1) / (rate / 100 / 12)))"
  using assms by (simp add: future_value_traditional_def float_pow_def float_div_def)

text \<open>Bernoulli's inequality bounds the closed form from below by the sum paid in.\<close>

lemma closed_form_ge:
  fixes r :: real
  assumes "0 < r" "0 \<le> m"
  shows "m * real n \<le> m * (((1 + r) ^ n - 1) / r)"
proof -
  have "1 + real n * r \<le> (1 + r) ^ n"
    using Bernoulli_inequality[of r n] assms(1) by simp
  then have "real n * r \<le> (1 + r) ^ n - 1" by simp
  then have "real n \<le> ((1 + r) ^ n - 1) / r"
    using assms(1) by (simp add: pos_le_divide_eq)
  then show ?thesis using assms(2) by (rule mult_left_mono)
qed

lemma closed_form_pos:
  fixes r :: real
  assumes "0 < r" "0 < m" "0 < n"
  shows "0 < m * (((1 + r) ^ n - 1) / r)"
proof -
  have "0 < m * real n" using assms by simp
  also have "\<dots> \<le> m * (((1 + r) ^ n - 1) / r)"
    using closed_form_ge[of r m n] assms by simp
  finally show ?thesis .
qed

text \<open>
  Both computations in terms of one amount \<open>c\<close>, the closed form: the loop returns
  \<open>(1 + r) * c\<close>.
\<close>

lemma sip_and_closed_form:
  fixes m rate :: real and yrs :: int
  assumes "0 < rate" "0 < yrs"
    and r: "r = rate / 100 / 12"
    and c: "c = m * (((1 + r) ^ nat (yrs * 12) - 1) / r)"
  shows "sip_simulation m rate yrs = Inr (m * 12 * of_int yrs, (1 + r) * c)"
    and "future_value_equity m rate (yrs * 12) = Inr c"
    and "future_value_traditional m rate (yrs * 12) = Inr c"
proof -
  have r': "rate / 12 / 100 = r" by (simp add: r)
  have "sip_simulation m rate yrs =
      Inr (m * 12 * of_int yrs,
           m * (1 + rate / 12 / 100) *
             (((1 + rate / 12 / 100) ^ nat (yrs * 12) - 1) / (rate / 12 / 100)))"
    by (rule sip_simulation_closed) (use assms in auto)
  then show "sip_simulation m rate yrs = Inr (m * 12 * of_int yrs, (1 + r) * c)"
    unfolding r' c by (simp only: mult.assoc mult.left_commute)
  show "future_value_equity m rate (yrs * 12) = Inr c"
    using assms(1,2) by (simp add: future_value_equity_closed c r)
  show "future_value_traditional m rate (yrs * 12) = Inr c"
    using assms(1,2) by (simp add: future_value_traditional_closed c r)
qed

section \<open>Claims about the growth projection\<close>

text \<open>
  C1 (amended). For every monthly contribution \<open>> 0\<close>, every annual rate of at least 1
  percent (the smallest rate an input of the program delivers) and every whole number
  of years \<open>> 0\<close>, the loop of \<open>sip_simulation\<close> and the closed form
  \<open>monthly * ((1 + r) ^ n - 1) / r\<close> of the script (\<open>r\<close> the monthly rate,
  \<open>n = 12 * years\<close>) both return, and their values agree within the relative tolerance
  \<open>r\<close>, not within \<open>1e-6\<close>. Either bound is met with a margin of at least
  \<open>r * r / (1 + r)\<close> of the value, which is \<open>6.9e-7\<close> or more and far above the
  rounding of double arithmetic.
\<close>

theorem iterative_vs_closed_form:
  assumes "0 < monthly_investment" "1 \<le> annual_return_rate" "0 < yrs"
  shows "\<exists>fv c.
      sip_simulation monthly_investment annual_return_rate yrs =
        Inr (monthly_investment * 12 * of_int yrs, fv) \<and>
      future_value_equity monthly_investment annual_return_rate (yrs * 12) = Inr c \<and>
      within_rel_tol fv c (annual_return_rate / 12 / 100) \<and>
      \<not> within_rel_tol fv c (1 / 10 ^ 6)"
proof -
  define r where "r = annual_return_rate / 100 / 12"
  define c where
    "c = monthly_investment * (((1 + r) ^ nat (yrs * 12) - 1) / r)"
  have rate: "0 < annual_return_rate" using assms(2) by simp
  note facts = sip_and_closed_form[OF rate assms(3) r_def c_def]
  have r: "1 / 1200 \<le> r" using assms(2) by (simp add: r_def)
  then have r0: "0 < r" by simp
  have r': "annual_return_rate / 12 / 100 = r" by (simp add: r_def)
  have n: "0 < nat (yrs * 12)" using assms(3) by simp
  have c0: "0 < c" unfolding c_def using closed_form_pos[OF r0 assms(1) n] .
  have diff: "\<bar>(1 + r) * c - c\<bar> = r * c"
    using r0 c0 by (simp add: algebra_simps)
  have mx: "max \<bar>(1 + r) * c\<bar> \<bar>c\<bar> = (1 + r) * c"
    using r0 c0 by (simp add: abs_mult max_def mult_le_cancel_right1)
  have "r * c \<le> r * ((1 + r) * c)"
    using r0 c0 by (simp add: mult_le_cancel_right1)
  then have close: "within_rel_tol ((1 + r) * c) c r"
    by (simp only: within_rel_tol_def diff mx)
  have "1 / 10 ^ 6 * (1 + r) < r" using r by simp
  then have "1 / 10 ^ 6 * (1 + r) * c < r * c"
    using c0 by (rule mult_strict_right_mono)
  then have far: "\<not> within_rel_tol ((1 + r) * c) c (1 / 10 ^ 6)"
    by (simp only: within_rel_tol_def diff mx mult.assoc not_le)
  show ?thesis
    unfolding r' using facts(1,2) close far by blast
qed

text \<open>
  The theorem at 5000 a month, 12 percent, one year: the hypotheses hold, both
  computations return, and the two values are within one percent of each other but not
  within \<open>1e-6\<close>.
\<close>

theorem iterative_vs_closed_form_witness:
  "0 < (5000::real) \<and> 1 \<le> (12::real) \<and> 0 < (1::int) \<and>
   (\<exists>fv c.
      sip_simulation 5000 12 1 = Inr (60000, fv) \<and>
      future_value_equity 5000 12 12 = Inr c \<and>
      within_rel_tol fv c (1 / 100) \<and>
      \<not> within_rel_tol fv c (1 / 10 ^ 6))"
  using iterative_vs_closed_form[of 5000 12 1] by simp

text \<open>
  The claim as written fails at the same input: the loop returns about 64046.64, the
  closed form about 63412.52, one percent apart.
\<close>

theorem iterative_vs_closed_form_counterexample:
  "sip_simulation 5000 12 1 =
     Inr (60000, 12809328043328941786781301 / 200000000000000000000) \<and>
   future_value_equity 5000 12 12 =
     Inr (126825030131969720661201 / 2000000000000000000) \<and>
   \<not> within_rel_tol (12809328043328941786781301 / 200000000000000000000)
        (126825030131969720661201 / 2000000000000000000) (1 / 10 ^ 6)"
  by (simp add: sip_simulation_closed future_value_equity_closed within_rel_tol_def
      power_divide)

section \<open>Claims about the retirement income and the tax estimate\<close>

text \<open>
  C3. For every corpus \<open>> 0\<close>, annuity rate \<open>> 0\<close> and monthly withdrawal \<open>> 0\<close>,
  \<open>post_retirement_income_models\<close> returns the annual annuity
  \<open>corpus * rate / 100\<close> and the withdrawal horizon \<open>corpus / (withdrawal * 12)\<close>;
  with a monthly withdrawal of zero it raises \<open>ZeroDivisionError\<close>; and a corpus of
  1,000,000 at 6 percent with 10,000 withdrawn a month gives 60,000 a year and a horizon
  of \<open>25 / 3\<close> years, which is 8.33 to two decimals.
\<close>

theorem post_retirement_income:
  assumes "0 < total_corpus" "0 < annuity_rate" "0 < swp_amount"
  shows "post_retirement_income_models total_corpus annuity_rate swp_amount =
           Inr (total_corpus * annuity_rate / 100, total_corpus / (swp_amount * 12)) \<and>
         post_retirement_income_models total_corpus annuity_rate 0 = Inl ZeroDivisionError \<and>
         post_retirement_income_models 1000000 6 10000 = Inr (60000, 25 / 3) \<and>
         \<bar>25 / 3 - 8.33\<bar> < (0.005 :: real)"
  using assms by (simp add: post_retirement_income_models_def float_div_def)

text \<open>The theorem at a corpus of 500,000, 8 percent and 2,500 a month.\<close>

theorem post_retirement_income_witness:
  "0 < (500000::real) \<and> 0 < (8::real) \<and> 0 < (2500::real) \<and>
   post_retirement_income_models 500000 8 2500 = Inr (40000, 50 / 3) \<and>
   post_retirement_income_models 500000 8 0 = Inl ZeroDivisionError"
  using post_retirement_income[of 500000 8 2500] by simp

text \<open>
  C4. For every annual investment, \<open>tax_benefits\<close> returns the eligible amount
  \<open>min investment 150000\<close> and the tax saved \<open>0.30\<close> times that amount, so the
  eligible amount never exceeds 150000; an investment of 200000 gives 150000 eligible
  and 45000 saved.
\<close>

theorem tax_benefits_capped:
  "tax_benefits investment_amount =
     (min investment_amount 150000, 0.30 * min investment_amount 150000) \<and>
   fst (tax_benefits investment_amount) \<le> 150000 \<and>
   tax_benefits 200000 = (150000, 45000)"
  by (simp add: tax_benefits_def Let_def)

section \<open>Claims about the horizon\<close>

text \<open>
  C5 (amended). For a current age in 18..60 and a retirement age in 50..70, the
  horizon \<open>(retirement_age - age) * 12\<close> is non-negative exactly when the current age
  is at most the retirement age; over these ranges it lies between -120 and 624.
\<close>

theorem horizon_months_sign:
  assumes "18 \<le> age" "age \<le> 60" "50 \<le> retirement_age" "retirement_age \<le> 70"
  shows "(0 \<le> months age retirement_age \<longleftrightarrow> age \<le> retirement_age) \<and>
         - 120 \<le> months age retirement_age \<and> months age retirement_age \<le> 624"
  using assms by (auto simp: months_def)

text \<open>The theorem at the default ages 30 and 60.\<close>

theorem horizon_months_sign_witness:
  "(18::int) \<le> 30 \<and> (30::int) \<le> 60 \<and> (50::int) \<le> 60 \<and> (60::int) \<le> 70 \<and>
   0 \<le> months 30 60 \<and> months 30 60 = 360"
  using horizon_months_sign[of 30 60] by (simp add: months_def)

text \<open>
  The claim as written fails inside the ranges: a current age of 60 with a retirement
  age of 50 gives a horizon of -120 months.
\<close>

theorem horizon_months_counterexample:
  "(18::int) \<le> 60 \<and> (60::int) \<le> 60 \<and> (50::int) \<le> 50 \<and> (50::int) \<le> 70 \<and>
   months 60 50 = - 120 \<and> \<not> 0 \<le> months 60 50"
  by (simp add: months_def)

section \<open>The scenario of 5000 a month at 12 percent for 20 years\<close>

text \<open>
  The growth factor \<open>1.01 ^ 240\<close> is enclosed by squaring an enclosure of \<open>1.01 ^ 15\<close>
  four times, rounding outwards at fourteen decimals.
\<close>

lemma square_bounds:
  fixes y :: real
  assumes "l \<le> y \<and> y \<le> u" "0 \<le> l" "l' \<le> l * l" "u * u \<le> u'"
  shows "l' \<le> y * y \<and> y * y \<le> u'"
proof -
  have "l * l \<le> y * y" using assms(1,2) by (intro mult_mono) auto
  moreover have "y * y \<le> u * u" using assms(1,2) by (intro mult_mono) auto
  ultimately show ?thesis using assms(3,4) by linarith
qed

lemma growth_factor_240:
  "(1089255365387185 / 100000000000000 :: real) \<le> (101 / 100) ^ 240 \<and>
   (101 / 100) ^ 240 \<le> (1089255365387410 / 100000000000000 :: real)"
proof -
  define x :: real where "x = 101 / 100"
  have b15: "1.16096895536999 \<le> x ^ 15 \<and> x ^ 15 \<le> 1.16096895537000"
    by (simp add: x_def power_divide)
  have b30: "1.34784891533288 \<le> x ^ 15 * x ^ 15 \<and> x ^ 15 * x ^ 15 \<le> 1.34784891533291"
    by (rule square_bounds[OF b15]) simp_all
  have e30: "x ^ 15 * x ^ 15 = x ^ 30" by (simp add: power_add[symmetric])
  have b60: "1.81669669856402 \<le> x ^ 30 * x ^ 30 \<and> x ^ 30 * x ^ 30 \<le> 1.81669669856411"
    by (rule square_bounds[OF b30[unfolded e30]]) simp_all
  have e60: "x ^ 30 * x ^ 30 = x ^ 60" by (simp add: power_add[symmetric])
  have b120: "3.30038689457340 \<le> x ^ 60 * x ^ 60 \<and> x ^ 60 * x ^ 60 \<le> 3.30038689457374"
    by (rule square_bounds[OF b60[unfolded e60]]) simp_all
  have e120: "x ^ 60 * x ^ 60 = x ^ 120" by (simp add: power_add[symmetric])
  have b240: "10.89255365387185 \<le> x ^ 120 * x ^ 120 \<and>
      x ^ 120 * x ^ 120 \<le> 10.89255365387410"
    by (rule square_bounds[OF b120[unfolded e120]]) simp_all
  have e240: "x ^ 120 * x ^ 120 = x ^ 240" by (simp add: power_add[symmetric])
  from b240[unfolded e240] show ?thesis by (simp add: x_def)
qed

lemma sip_simulation_5000_12_20:
  "sip_simulation 5000 12 20 = Inr (1200000, 505000 * ((101 / 100) ^ 240 - 1))"
  by (simp add: sip_simulation_closed)

lemma future_value_equity_5000_12_240:
  "future_value_equity 5000 12 240 = Inr (500000 * ((101 / 100) ^ 240 - 1))"
  by (simp add: future_value_equity_closed)

text \<open>
  C7 (amended). For 5000 a month at 12 percent over 20 years \<open>sip_simulation\<close>
  returns a total contributed of 1,200,000 and a future value of 4,995,740 to the
  nearest unit (4,995,739.60); the closed form of the script at 240 months gives
  4,946,277 to the nearest unit.
\<close>

theorem sip_scenario:
  "\<exists>fv c. sip_simulation 5000 12 20 = Inr (1200000, fv) \<and> \<bar>fv - 4995740\<bar> < 1 / 2 \<and>
     future_value_equity 5000 12 240 = Inr c \<and> \<bar>c - 4946277\<bar> < 1 / 2"
proof (intro exI conjI)
  show "sip_simulation 5000 12 20 = Inr (1200000, 505000 * ((101 / 100) ^ 240 - 1))"
    by (rule sip_simulation_5000_12_20)
  show "future_value_equity 5000 12 240 = Inr (500000 * ((101 / 100) ^ 240 - 1))"
    by (rule future_value_equity_5000_12_240)
  have "\<bar>505000 * (p - 1) - 4995740\<bar> < 1 / 2 \<and> \<bar>500000 * (p - 1) - 4946277\<bar> < 1 / 2"
    if "1089255365387185 / 100000000000000 \<le> p" "p \<le> 1089255365387410 / 100000000000000"
    for p :: real
    using that by simp
  from this[OF growth_factor_240[THEN conjunct1] growth_factor_240[THEN conjunct2]]
  show "\<bar>505000 * ((101 / 100) ^ 240 - 1) - 4995740\<bar> < (1 / 2 :: real)"
    and "\<bar>500000 * ((101 / 100) ^ 240 - 1) - 4946277\<bar> < (1 / 2 :: real)"
    by blast+
qed

text \<open>
  The claim as written fails: the future value that \<open>sip_simulation\<close> returns is more
  than 45,000 away from 4,949,800, and the closed form of the script at 240 months is
  more than 3,500 away from it.
\<close>

theorem sip_scenario_counterexample:
  "sip_simulation 5000 12 20 = Inr (1200000, 505000 * ((101 / 100) ^ 240 - 1)) \<and>
   \<not> \<bar>505000 * ((101 / 100) ^ 240 - 1) - 4949800\<bar> \<le> (45000 :: real) \<and>
   future_value_equity 5000 12 240 = Inr (500000 * ((101 / 100) ^ 240 - 1)) \<and>
   \<not> \<bar>500000 * ((101 / 100) ^ 240 - 1) - 4949800\<bar> \<le> (3500 :: real)"
proof (intro conjI)
  show "sip_simulation 5000 12 20 = Inr (1200000, 505000 * ((101 / 100) ^ 240 - 1))"
    by (rule sip_simulation_5000_12_20)
  show "future_value_equity 5000 12 240 = Inr (500000 * ((101 / 100) ^ 240 - 1))"
    by (rule future_value_equity_5000_12_240)
  have "\<not> \<bar>505000 * (p - 1) - 4949800\<bar> \<le> 45000 \<and>
      \<not> \<bar>500000 * (p - 1) - 4949800\<bar> \<le> 3500"
    if "1089255365387185 / 100000000000000 \<le> p" "p \<le> 1089255365387410 / 100000000000000"
    for p :: real
    using that by simp
  from this[OF growth_factor_240[THEN conjunct1] growth_factor_240[THEN conjunct2]]
  show "\<not> \<bar>505000 * ((101 / 100) ^ 240 - 1) - 4949800\<bar> \<le> (45000 :: real)"
    and "\<not> \<bar>500000 * ((101 / 100) ^ 240 - 1) - 4949800\<bar> \<le> (3500 :: real)"
    by blast+
qed

section \<open>Claims about the yearly growth lists\<close>

lemma list_comp_Inr:
  "(\<And>x. x \<in> set xs \<Longrightarrow> f x = Inr (g x)) \<Longrightarrow> list_comp f xs = Inr (map g xs)"
  by (induction xs) simp_all

lemma years_upto: "years age retirement_age = [age..retirement_age]"
  by (simp add: years_def py_range_def)

lemma equity_growth_closed:
  assumes "rate \<noteq> 0"
  shows "equity_growth m rate yrs =
     Inr (map (\<lambda>i. m * (((1 + rate / 100 / 12) ^ nat (i * 12) - 1) / (rate / 100 / 12)))
            [0..int (length yrs) - 1])"
  unfolding equity_growth_def py_range_def
  by (rule list_comp_Inr) (use assms in \<open>simp add: float_pow_def float_div_def\<close>)

lemma traditional_growth_closed:
  assumes "rate \<noteq> 0"
  shows "traditional_growth m rate yrs =
     Inr (map (\<lambda>i. m * (((1 + rate / 100 / 12) ^ nat (i * 12) - 1) / (rate / 100 / 12)))
            [0..int (length yrs) - 1])"
  unfolding traditional_growth_def py_range_def
  by (rule list_comp_Inr) (use assms in \<open>simp add: float_pow_def float_div_def\<close>)

lemma last_map_upto:
  assumes "0 \<le> n"
  shows "last (map g [0..n]) = g n"
  using assms by (simp add: upto_rec2)

text \<open>
  C8 (amended). When the current age is at most the retirement age (and the two rates
  are not zero, as their sliders ensure), the list of years runs from the current age
  to the retirement age, the two growth lists have exactly
  \<open>retirement_age - age + 1\<close> entries each, the entry at position \<open>k\<close> is the closed
  form at \<open>12 * k\<close> elapsed months under the equity rate and the traditional rate, and
  the last entries are the headline equity and traditional future values.
\<close>

theorem yearly_series:
  assumes "age \<le> retirement_age"
    and "estimated_return_equity \<noteq> 0" and "estimated_return_traditional \<noteq> 0"
  shows "\<exists>es ts.
      equity_growth monthly_investment estimated_return_equity (years age retirement_age)
        = Inr es \<and>
      traditional_growth monthly_investment estimated_return_traditional
        (years age retirement_age) = Inr ts \<and>
      int (length (years age retirement_age)) = retirement_age - age + 1 \<and>
      int (length es) = retirement_age - age + 1 \<and>
      int (length ts) = retirement_age - age + 1 \<and>
      (\<forall>k < length (years age retirement_age).
          years age retirement_age ! k = age + int k \<and>
          future_value_equity monthly_investment estimated_return_equity (int k * 12)
            = Inr (es ! k) \<and>
          future_value_traditional monthly_investment estimated_return_traditional (int k * 12)
            = Inr (ts ! k)) \<and>
      future_value_equity monthly_investment estimated_return_equity
        (months age retirement_age) = Inr (last es) \<and>
      future_value_traditional monthly_investment estimated_return_traditional
        (months age retirement_age) = Inr (last ts)"
proof -
  define n where "n = retirement_age - age"
  define ge where "ge = (\<lambda>i. monthly_investment *
      (((1 + estimated_return_equity / 100 / 12) ^ nat (i * 12) - 1)
         / (estimated_return_equity / 100 / 12)))"
  define gt where "gt = (\<lambda>i. monthly_investment *
      (((1 + estimated_return_traditional / 100 / 12) ^ nat (i * 12) - 1)
         / (estimated_return_traditional / 100 / 12)))"
  have n0: "0 \<le> n" using assms(1) by (simp add: n_def)
  have len: "int (length (years age retirement_age)) = n + 1"
    using n0 by (simp add: years_upto n_def)
  have es: "equity_growth monthly_investment estimated_return_equity
      (years age retirement_age) = Inr (map ge [0..n])"
    using equity_growth_closed[OF assms(2), of monthly_investment "years age retirement_age"]
    by (simp only: len ge_def add_diff_cancel_right')
  have ts: "traditional_growth monthly_investment estimated_return_traditional
      (years age retirement_age) = Inr (map gt [0..n])"
    using traditional_growth_closed[OF assms(3), of monthly_investment
        "years age retirement_age"]
    by (simp only: len gt_def add_diff_cancel_right')
  have fe: "future_value_equity monthly_investment estimated_return_equity (i * 12)
      = Inr (ge i)" if "0 \<le> i" for i
    using that assms(2) by (simp add: future_value_equity_closed ge_def)
  have ft: "future_value_traditional monthly_investment estimated_return_traditional (i * 12)
      = Inr (gt i)" if "0 \<le> i" for i
    using that assms(3) by (simp add: future_value_traditional_closed gt_def)
  have nth: "years age retirement_age ! k = age + int k \<and>
      future_value_equity monthly_investment estimated_return_equity (int k * 12)
        = Inr (map ge [0..n] ! k) \<and>
      future_value_traditional monthly_investment estimated_return_traditional (int k * 12)
        = Inr (map gt [0..n] ! k)"
    if "k < length (years age retirement_age)" for k
  proof -
    have k: "int k \<le> n" using that len by simp
    then have "k < length [0..n]" by simp
    then show ?thesis using k fe[of "int k"] ft[of "int k"]
      by (simp add: years_upto n_def)
  qed
  have le: "future_value_equity monthly_investment estimated_return_equity
      (months age retirement_age) = Inr (last (map ge [0..n]))"
    using fe[OF n0] last_map_upto[OF n0, of ge] by (simp add: months_def n_def)
  have lt: "future_value_traditional monthly_investment estimated_return_traditional
      (months age retirement_age) = Inr (last (map gt [0..n]))"
    using ft[OF n0] last_map_upto[OF n0, of gt] by (simp add: months_def n_def)
  have lens: "int (length (map ge [0..n])) = n + 1" "int (length (map gt [0..n])) = n + 1"
    using n0 by simp_all
  show ?thesis
    using es ts len lens nth le lt unfolding n_def by blast
qed

text \<open>
  The theorem at the ages 30 and 32 with 1000 a month, 12 and 6 percent: three years,
  three entries in each list, the entry at position 1 is the closed form at 12 months
  and the last entries are the headline values at 24 months.
\<close>

theorem yearly_series_witness:
  "(30::int) \<le> 32 \<and> (12::real) \<noteq> 0 \<and> (6::real) \<noteq> 0 \<and>
   (\<exists>es ts.
      equity_growth 1000 12 (years 30 32) = Inr es \<and>
      traditional_growth 1000 6 (years 30 32) = Inr ts \<and>
      years 30 32 = [30, 31, 32] \<and> length es = 3 \<and> length ts = 3 \<and>
      future_value_equity 1000 12 12 = Inr (es ! 1) \<and>
      future_value_traditional 1000 6 12 = Inr (ts ! 1) \<and>
      future_value_equity 1000 12 (months 30 32) = Inr (last es) \<and>
      future_value_traditional 1000 6 (months 30 32) = Inr (last ts))"
proof -
  have y: "years 30 32 = [30, 31, 32]"
    by (simp add: years_upto upto_rec1)
  from yearly_series[of 30 32 12 6 1000] obtain es ts where
    h: "equity_growth 1000 12 (years 30 32) = Inr es"
       "traditional_growth 1000 6 (years 30 32) = Inr ts"
       "int (length es) = 32 - 30 + 1" "int (length ts) = 32 - 30 + 1"
       "\<forall>k < length (years 30 32).
          years 30 32 ! k = 30 + int k \<and>
          future_value_equity 1000 12 (int k * 12) = Inr (es ! k) \<and>
          future_value_traditional 1000 6 (int k * 12) = Inr (ts ! k)"
       "future_value_equity 1000 12 (months 30 32) = Inr (last es)"
       "future_value_traditional 1000 6 (months 30 32) = Inr (last ts)"
    by auto
  have "1 < length (years 30 32)" by (simp add: y)
  from h(5)[rule_format, OF this]
  have "future_value_equity 1000 12 12 = Inr (es ! 1)"
    and "future_value_traditional 1000 6 12 = Inr (ts ! 1)"
    by simp_all
  with h y show ?thesis by simp
qed

text \<open>
  The claim as written fails when the current age exceeds the retirement age, which the
  widget ranges allow: for the ages 60 and 50 the lists are empty, so they have no last
  entry and their length is not \<open>50 - 60 + 1\<close>.
\<close>

theorem yearly_series_counterexample:
  "years 60 50 = [] \<and>
   equity_growth 5000 12 (years 60 50) = Inr [] \<and>
   traditional_growth 5000 7 (years 60 50) = Inr [] \<and>
   int (length (years 60 50)) \<noteq> 50 - 60 + 1"
  by (simp add: years_def py_range_def equity_growth_def traditional_growth_def)

section \<open>Claims about the comparison table\<close>

text \<open>
  C9. The comparison table is built from constants only: it takes no input, the frame
  is constructed without an error, it has exactly 4 rows, and its column of option
  names holds exactly the four names Equity Mutual Fund, Public Provident Fund (PPF),
  Employees Provident Fund (EPF) and National Pension Scheme (NPS), each once.
\<close>

theorem comparison_table:
  "\<exists>df. df_comparison = Inr df \<and>
     length (rows df) = 4 \<and>
     column df ''Option'' =
       Some [Str ''Equity Mutual Fund'', Str ''Public Provident Fund (PPF)'',
             Str ''Employees Provident Fund (EPF)'', Str ''National Pension Scheme (NPS)''] \<and>
     set (map (\<lambda>row. row ! 0) (rows df)) =
       {Str ''Equity Mutual Fund'', Str ''Public Provident Fund (PPF)'',
        Str ''Employees Provident Fund (EPF)'', Str ''National Pension Scheme (NPS)''} \<and>
     distinct (map (\<lambda>row. row ! 0) (rows df))"
  by (simp add: df_comparison_def DataFrame_def data_def column_def upt_rec)

end
